theory Spec2Isabelle
  imports Main "HOL-Library.Word"
begin

unbundle bit_operations_syntax

section \<open>Python values, dictionaries and errors\<close>

text \<open>
  The spider of \<^verbatim>\<open>footy_stats_spider.py\<close> handles strings, lists of strings, \<^verbatim>\<open>None\<close>
  and the boolean \<^verbatim>\<open>True\<close>. A Python \<^verbatim>\<open>str\<close> is modelled as a \<^typ>\<open>string\<close> whose characters
  are the code points of the text; the model covers the code points below 256. A \<^verbatim>\<open>dict\<close>
  (and a Scrapy item, which is a dict of field values) is an association list in insertion
  order. Subscripting with a missing key raises \<^verbatim>\<open>KeyError\<close>, and building a request for
  a URL without a scheme raises \<^verbatim>\<open>ValueError\<close>; these are the exceptions the modelled code
  raises.
\<close>

datatype pyval = PNone | PBool bool | PStr string | PList "pyval list"

datatype error = KeyError string | ValueError string

type_synonym pydict = "(string \<times> pyval) list"

fun setitem :: "(string \<times> 'v) list \<Rightarrow> string \<Rightarrow> 'v \<Rightarrow> (string \<times> 'v) list" where
  "setitem [] k v = [(k, v)]"
| "setitem ((k', v') # d) k v = (if k' = k then (k, v) # d else (k', v') # setitem d k v)"

definition getitem :: "(string \<times> 'v) list \<Rightarrow> string \<Rightarrow> error + 'v" where
  "getitem d k = (case map_of d k of None \<Rightarrow> Inl (KeyError k) | Some v \<Rightarrow> Inr v)"

definition dict_get :: "pydict \<Rightarrow> string \<Rightarrow> pyval" where
  "dict_get d k = (case map_of d k of None \<Rightarrow> PNone | Some v \<Rightarrow> v)"

fun truthy :: "pyval \<Rightarrow> bool" where
  "truthy PNone = False"
| "truthy (PBool b) = b"
| "truthy (PStr s) = (s \<noteq> [])"
| "truthy (PList xs) = (xs \<noteq> [])"

section \<open>The string form of a value and its UTF-8 encoding\<close>

text \<open>
  \<^verbatim>\<open>str\<close> of a list is \<^verbatim>\<open>[\<close>, the \<^verbatim>\<open>repr\<close> of the elements separated by a comma and a blank,
  and \<^verbatim>\<open>]\<close>. The \<^verbatim>\<open>repr\<close> of a string is quoted with \<^verbatim>\<open>'\<close>, or with \<^verbatim>\<open>"\<close> when the text holds
  a \<^verbatim>\<open>'\<close> and no \<^verbatim>\<open>"\<close>; the quote and the backslash are escaped with a backslash, tab, line
  feed and carriage return are written \<^verbatim>\<open>\t\<close>, \<^verbatim>\<open>\n\<close>, \<^verbatim>\<open>\r\<close>, and every other
  non-printable code point below 256 as \<^verbatim>\<open>\x\<close> and two lowercase hexadecimal digits.
\<close>

type_synonym byte = "8 word"

definition hexdigits :: string where
  "hexdigits = ''0123456789abcdef''"

definition hex_digit :: "byte \<Rightarrow> char" where
  "hex_digit n = hexdigits ! unat (n AND 0xf)"

definition hex_byte :: "byte \<Rightarrow> string" where
  "hex_byte b = [hex_digit (drop_bit 4 b), hex_digit b]"

definition py_printable :: "char \<Rightarrow> bool" where
  "py_printable c =
     (let n = (of_char c :: nat) in (32 \<le> n \<and> n < 127) \<or> (161 \<le> n \<and> n \<noteq> 173))"

definition repr_char :: "char \<Rightarrow> char \<Rightarrow> string" where
  "repr_char quote c =
     (if c = quote \<or> c = CHR 0x5C then [CHR 0x5C, c]
      else if c = CHR 0x09 then [CHR 0x5C, CHR ''t'']
      else if c = CHR 0x0A then [CHR 0x5C, CHR ''n'']
      else if c = CHR 0x0D then [CHR 0x5C, CHR ''r'']
      else if \<not> py_printable c then CHR 0x5C # CHR ''x'' # hex_byte (of_char c)
      else [c])"

definition repr_quote :: "string \<Rightarrow> char" where
  "repr_quote s = (if CHR 0x27 \<in> set s \<and> CHR 0x22 \<notin> set s then CHR 0x22 else CHR 0x27)"

definition repr_str :: "string \<Rightarrow> string" where
  "repr_str s = (let q = repr_quote s in q # concat (map (repr_char q) s) @ [q])"

fun join :: "string \<Rightarrow> string list \<Rightarrow> string" where
  "join sep [] = []"
| "join sep [x] = x"
| "join sep (x # y # ys) = x @ sep @ join sep (y # ys)"

fun py_repr :: "pyval \<Rightarrow> string" where
  "py_repr PNone = ''None''"
| "py_repr (PBool b) = (if b then ''True'' else ''False'')"
| "py_repr (PStr s) = repr_str s"
| "py_repr (PList xs) = ''['' @ join '', '' (map py_repr xs) @ '']''"

text \<open>\<^verbatim>\<open>str(fields)\<close> for the list \<^verbatim>\<open>fields\<close>.\<close>

definition str_list :: "pyval list \<Rightarrow> string" where
  "str_list fields = py_repr (PList fields)"

definition encode_char :: "char \<Rightarrow> byte list" where
  "encode_char c =
     (let b = (of_char c :: byte) in
      if b < 0x80 then [b] else [0xC0 OR drop_bit 6 b, 0x80 OR (b AND 0x3F)])"

definition encode :: "string \<Rightarrow> byte list" where
  "encode s = concat (map encode_char s)"

section \<open>MD5\<close>

text \<open>
  \<^verbatim>\<open>hashlib.md5(data).hexdigest()\<close>: the MD5 message digest of RFC 1321 over the bytes
  \<^verbatim>\<open>data\<close>, written as 32 lowercase hexadecimal digits.
\<close>

type_synonym u32 = "32 word"

definition md5_K :: "u32 list" where
  "md5_K = [
    0xd76aa478, 0xe8c7b756, 0x242070db, 0xc1bdceee, 0xf57c0faf, 0x4787c62a, 0xa8304613, 0xfd469501,
    0x698098d8, 0x8b44f7af, 0xffff5bb1, 0x895cd7be, 0x6b901122, 0xfd987193, 0xa679438e, 0x49b40821,
    0xf61e2562, 0xc040b340, 0x265e5a51, 0xe9b6c7aa, 0xd62f105d, 0x02441453, 0xd8a1e681, 0xe7d3fbc8,
    0x21e1cde6, 0xc33707d6, 0xf4d50d87, 0x455a14ed, 0xa9e3e905, 0xfcefa3f8, 0x676f02d9, 0x8d2a4c8a,
    0xfffa3942, 0x8771f681, 0x6d9d6122, 0xfde5380c, 0xa4beea44, 0x4bdecfa9, 0xf6bb4b60, 0xbebfbc70,
    0x289b7ec6, 0xeaa127fa, 0xd4ef3085, 0x04881d05, 0xd9d4d039, 0xe6db99e5, 0x1fa27cf8, 0xc4ac5665,
    0xf4292244, 0x432aff97, 0xab9423a7, 0xfc93a039, 0x655b59c3, 0x8f0ccc92, 0xffeff47d, 0x85845dd1,
    0x6fa87e4f, 0xfe2ce6e0, 0xa3014314, 0x4e0811a1, 0xf7537e82, 0xbd3af235, 0x2ad7d2bb, 0xeb86d391]"

definition md5_s :: "nat list" where
  "md5_s = [7, 12, 17, 22, 7, 12, 17, 22, 7, 12, 17, 22, 7, 12, 17, 22,
            5, 9, 14, 20, 5, 9, 14, 20, 5, 9, 14, 20, 5, 9, 14, 20,
            4, 11, 16, 23, 4, 11, 16, 23, 4, 11, 16, 23, 4, 11, 16, 23,
            6, 10, 15, 21, 6, 10, 15, 21, 6, 10, 15, 21, 6, 10, 15, 21]"

definition rotl32 :: "u32 \<Rightarrow> nat \<Rightarrow> u32" where
  "rotl32 x n = push_bit n x OR drop_bit (32 - n) x"

type_synonym md5_state = "u32 \<times> u32 \<times> u32 \<times> u32"

fun md5_step :: "u32 list \<Rightarrow> nat \<Rightarrow> md5_state \<Rightarrow> md5_state" where
  "md5_step M i (a, b, c, d) =
     (let (f, g) =
            (if i < 16 then ((b AND c) OR (NOT b AND d), i)
             else if i < 32 then ((d AND b) OR (NOT d AND c), (5 * i + 1) mod 16)
             else if i < 48 then (b XOR c XOR d, (3 * i + 5) mod 16)
             else (c XOR (b OR NOT d), (7 * i) mod 16));
          f' = f + a + md5_K ! i + M ! g
      in (d, b + rotl32 f' (md5_s ! i), b, c))"

definition md5_block :: "md5_state \<Rightarrow> u32 list \<Rightarrow> md5_state" where
  "md5_block st M =
     (case st of (a0, b0, c0, d0) \<Rightarrow>
        (case fold (md5_step M) [0..<64] st of (a, b, c, d) \<Rightarrow>
           (a0 + a, b0 + b, c0 + c, d0 + d)))"

definition le32 :: "byte list \<Rightarrow> u32" where
  "le32 bs = foldr (\<lambda>b acc. ucast b OR push_bit 8 acc) bs 0"

fun chunks :: "nat \<Rightarrow> 'a list \<Rightarrow> 'a list list" where
  "chunks n xs = (if n = 0 \<or> xs = [] then [] else take n xs # chunks n (drop n xs))"

declare chunks.simps [simp del]

definition le_bytes32 :: "u32 \<Rightarrow> byte list" where
  "le_bytes32 w = map (\<lambda>i. ucast (drop_bit (8 * i) w)) [0..<4]"

definition le_bytes64 :: "64 word \<Rightarrow> byte list" where
  "le_bytes64 w = map (\<lambda>i. ucast (drop_bit (8 * i) w)) [0..<8]"

definition md5_pad :: "byte list \<Rightarrow> byte list" where
  "md5_pad msg =
     msg @ [0x80] @ replicate ((119 - length msg mod 64) mod 64) 0
         @ le_bytes64 (8 * of_nat (length msg))"

definition md5_init :: md5_state where
  "md5_init = (0x67452301, 0xefcdab89, 0x98badcfe, 0x10325476)"

definition md5_digest :: "byte list \<Rightarrow> byte list" where
  "md5_digest msg =
     (case fold (\<lambda>blk st. md5_block st (map le32 (chunks 4 blk))) (chunks 64 (md5_pad msg)) md5_init
      of (a, b, c, d) \<Rightarrow> concat (map le_bytes32 [a, b, c, d]))"

definition md5_hexdigest :: "byte list \<Rightarrow> string" where
  "md5_hexdigest msg = concat (map hex_byte (md5_digest msg))"

section \<open>Pages, elements and structural queries\<close>

text \<open>
  Evaluating an XPath expression on a page is the work of the selector library. A page is
  modelled by what its queries return: \<open>xpath_text\<close> gives the strings of
  \<^verbatim>\<open>response.xpath(q).getall()\<close> for a query that selects text or attribute nodes, and
  \<open>xpath_nodes\<close> the elements of \<^verbatim>\<open>response.xpath(q)\<close> for a query that selects elements.
  An element carries its attribute dictionary \<^verbatim>\<open>attrib\<close> and the strings its relative queries
  return. Resolving a link against the URL of the page is the work of the library too:
  \<open>follow_url\<close> gives, for the \<^verbatim>\<open>url\<close> passed to \<^verbatim>\<open>response.follow\<close>, the URL of the request
  that is built, that is \<^verbatim>\<open>url\<close> joined to the URL of the page and made safe.
\<close>

datatype node = Node (attrib: "(string \<times> string) list") (select: "string \<Rightarrow> string list")

record response =
  xpath_text :: "string \<Rightarrow> string list"
  xpath_nodes :: "string \<Rightarrow> node list"
  follow_url :: "string \<Rightarrow> string"

text \<open>
  \<^verbatim>\<open>matches.attrib\<close> on a list of selected elements is the attribute dictionary of the first
  element, and the empty dictionary when nothing was selected.
\<close>

definition selectorlist_attrib :: "node list \<Rightarrow> (string \<times> string) list" where
  "selectorlist_attrib ns = (case ns of [] \<Rightarrow> [] | n # _ \<Rightarrow> attrib n)"

text \<open>
  \<^verbatim>\<open>matches.xpath('@href').get()\<close>: the \<^verbatim>\<open>href\<close> attributes of the selected elements, in
  document order; \<^verbatim>\<open>get\<close> returns the first one, or \<^verbatim>\<open>None\<close>.
\<close>

definition xpath_attr :: "node list \<Rightarrow> string \<Rightarrow> string list" where
  "xpath_attr ns a = concat (map (\<lambda>n. case map_of (attrib n) a of None \<Rightarrow> [] | Some v \<Rightarrow> [v]) ns)"

definition get_first :: "'a list \<Rightarrow> 'a option" where
  "get_first xs = (case xs of [] \<Rightarrow> None | x # _ \<Rightarrow> Some x)"

section \<open>Item loaders\<close>

text \<open>
  An \<^verbatim>\<open>ItemLoader\<close> collects, per field, a list of values and builds the item from them.
  Each field of an item class declares an input and an output processor (\<^verbatim>\<open>items.py\<close>); the
  declarations are a parameter of the model. \<^verbatim>\<open>add_value\<close> turns the value into a list
  (\<^verbatim>\<open>None\<close> is the empty list, a list is itself, anything else a singleton), runs the
  field's input processor on it, and appends the result to the field's values unless it
  is empty. \<^verbatim>\<open>add_xpath\<close> adds all the strings the query returns. \<^verbatim>\<open>load_item\<close> assigns
  to every field that has collected values the result of its output processor, unless
  that is \<^verbatim>\<open>None\<close>. A field for which nothing was collected is not set.
\<close>

record processors =
  input_processor :: "pyval list \<Rightarrow> pyval"
  output_processor :: "pyval list \<Rightarrow> pyval"

datatype item_class = League | Match | PostMatchStatistics

type_synonym declarations = "item_class \<Rightarrow> string \<Rightarrow> processors"

type_synonym loader = "(string \<times> pyval list) list"

fun arg_to_iter :: "pyval \<Rightarrow> pyval list" where
  "arg_to_iter PNone = []"
| "arg_to_iter (PList xs) = xs"
| "arg_to_iter v = [v]"

definition add_value :: "(string \<Rightarrow> processors) \<Rightarrow> string \<Rightarrow> pyval \<Rightarrow> loader \<Rightarrow> loader" where
  "add_value decl field_name v l =
     (let processed_value = input_processor (decl field_name) (arg_to_iter v) in
      if truthy processed_value
      then setitem l field_name
             ((case map_of l field_name of None \<Rightarrow> [] | Some vs \<Rightarrow> vs) @ arg_to_iter processed_value)
      else l)"

definition add_xpath ::
    "(string \<Rightarrow> processors) \<Rightarrow> response \<Rightarrow> string \<Rightarrow> string \<Rightarrow> loader \<Rightarrow> loader" where
  "add_xpath decl r field_name q l = add_value decl field_name (PList (map PStr (xpath_text r q))) l"

definition add_xpaths ::
    "(string \<Rightarrow> processors) \<Rightarrow> response \<Rightarrow> (string \<times> string) list \<Rightarrow> loader \<Rightarrow> loader" where
  "add_xpaths decl r qs l = fold (\<lambda>(field_name, q). add_xpath decl r field_name q) qs l"

definition load_field :: "(string \<Rightarrow> processors) \<Rightarrow> string \<times> pyval list \<Rightarrow> pydict \<Rightarrow> pydict" where
  "load_field decl = (\<lambda>(field_name, vs) item.
     let v = output_processor (decl field_name) vs in
     if v \<noteq> PNone then setitem item field_name v else item)"

definition load_item :: "(string \<Rightarrow> processors) \<Rightarrow> loader \<Rightarrow> pydict" where
  "load_item decl l = fold (load_field decl) l []"

text \<open>
  The two processors of the library that the examples below use: \<^verbatim>\<open>Identity\<close> returns the
  collected values as they are, \<^verbatim>\<open>TakeFirst\<close> the first value that is neither \<^verbatim>\<open>None\<close> nor
  the empty string, and \<^verbatim>\<open>None\<close> when there is none.
\<close>

definition Identity :: "pyval list \<Rightarrow> pyval" where
  "Identity vs = PList vs"

fun TakeFirst :: "pyval list \<Rightarrow> pyval" where
  "TakeFirst [] = PNone"
| "TakeFirst (v # vs) = (if v \<noteq> PNone \<and> v \<noteq> PStr [] then v else TakeFirst vs)"

definition take_first_fields :: declarations where
  "take_first_fields = (\<lambda>_ _. \<lparr>input_processor = Identity, output_processor = TakeFirst\<rparr>)"

definition identity_fields :: declarations where
  "identity_fields = (\<lambda>_ _. \<lparr>input_processor = Identity, output_processor = Identity\<rparr>)"

section \<open>Requests and parser outputs\<close>

text \<open>
  A parser is a generator: it yields items and requests, and may stop with an exception.
  Its model returns the outputs yielded so far, each item as it is at the moment of its
  \<^verbatim>\<open>yield\<close>, and the exception if one was raised.
\<close>

datatype callback = Parse_league | Parse_season | Parse_matches | Parse_match

datatype request =
    Follow (url: string) (callback: callback) (cb_kwargs: pydict)
  | FormRequest (url: string) (http_method: string) (formdata: "(string \<times> string) list")
      (callback: callback) (cb_kwargs: pydict)
  | SplashRequest (url: string) (callback: callback) (args: "(string \<times> nat) list")
      (cb_kwargs: pydict)

datatype spider_output = Item item_class pydict | Request request

type_synonym generator = "spider_output list \<times> error option"

definition base_url :: string where
  "base_url = ''https://footystats.org''"

definition make_url :: "string \<Rightarrow> string" where
  "make_url path = base_url @ ''/'' @ path"

text \<open>
  A request is modelled by the arguments of the call that builds it. The constructor of a
  request raises \<^verbatim>\<open>ValueError\<close> when its URL holds no \<^verbatim>\<open>://\<close> and starts neither with
  \<^verbatim>\<open>about:\<close> nor with \<^verbatim>\<open>data:\<close>. The URLs of the form requests and of the rendered
  requests come from \<^verbatim>\<open>make_url\<close> and start with \<^verbatim>\<open>https://\<close>; the URL of a request built by
  \<^verbatim>\<open>response.follow\<close> comes from the page, so that call can fail.
\<close>

fun startswith :: "string \<Rightarrow> string \<Rightarrow> bool" where
  "startswith s [] = True"
| "startswith [] (p # ps) = False"
| "startswith (c # s) (p # ps) = (c = p \<and> startswith s ps)"

fun contains :: "string \<Rightarrow> string \<Rightarrow> bool" where
  "contains [] p = (p = [])"
| "contains (c # s) p = (startswith (c # s) p \<or> contains s p)"

definition has_scheme :: "string \<Rightarrow> bool" where
  "has_scheme u = (contains u ''://'' \<or> startswith u ''about:'' \<or> startswith u ''data:'')"

definition follow :: "response \<Rightarrow> string \<Rightarrow> callback \<Rightarrow> pydict \<Rightarrow> error + request" where
  "follow response u cb kwargs =
     (let request_url = follow_url response u in
      if has_scheme request_url then Inr (Follow u cb kwargs)
      else Inl (ValueError (''Missing scheme in request url: '' @ request_url)))"

section \<open>The parsers of the spider\<close>

subsection \<open>\<^verbatim>\<open>parse_leagues\<close>\<close>

definition country_selectors_xpath :: string where
  \<open>country_selectors_xpath = ''//div[@class="pt2e"]''\<close>

definition leagues_urls_xpath :: string where
  "leagues_urls_xpath = ''div/table/tr/td/a/@href''"

text \<open>The inner loop of \<^verbatim>\<open>parse_leagues\<close>, over the league links of one country.\<close>

fun follow_leagues :: "response \<Rightarrow> string \<Rightarrow> string list \<Rightarrow> generator" where
  "follow_leagues response country [] = ([], None)"
| "follow_leagues response country (league_url # leagues_urls) =
     (case follow response league_url Parse_league [(''country'', PStr country)] of
        Inl e \<Rightarrow> ([], Some e)
      | Inr request \<Rightarrow>
          (case follow_leagues response country leagues_urls of
             (later, err) \<Rightarrow> (Request request # later, err)))"

text \<open>The outer loop, over the country groups.\<close>

fun parse_leagues_loop :: "response \<Rightarrow> node list \<Rightarrow> generator" where
  "parse_leagues_loop response [] = ([], None)"
| "parse_leagues_loop response (selector # country_selectors) =
     (case getitem (attrib selector) ''id'' of
        Inl e \<Rightarrow> ([], Some e)
      | Inr country \<Rightarrow>
          (case follow_leagues response country (select selector leagues_urls_xpath) of
             (requests, Some e) \<Rightarrow> (requests, Some e)
           | (requests, None) \<Rightarrow>
               (case parse_leagues_loop response country_selectors of
                  (later, err) \<Rightarrow> (requests @ later, err))))"

definition parse_leagues :: "response \<Rightarrow> generator" where
  "parse_leagues response =
     parse_leagues_loop response (xpath_nodes response country_selectors_xpath)"

subsection \<open>\<^verbatim>\<open>parse_season\<close>\<close>

text \<open>The fields the League loader fills from the page, with their queries, in source order.\<close>

definition league_xpaths :: "(string \<times> string) list" where
  \<open>league_xpaths =
     [(''title'', ''//div[@id="teamSummary"]/h1[contains(@class, "teamName")]/text()''),
      (''nation'', ''//div[@class="league-details"]/div[@class="detail"]''
                   @ ''/div[contains(., "Nation")]/following-sibling::div/a/text()''),
      (''division'', ''//div[@class="league-details"]/div[@class="detail"]''
                     @ ''/div[contains(., "Division")]/following-sibling::div/text()''),
      (''league_type'', ''//div[@class="league-details"]/div[@class="detail"]''
                        @ ''/div[contains(., "Type")]/following-sibling::div/text()''),
      (''teams_count'', ''//div[@class="league-details"]/div[@class="detail"]''
                        @ ''/div[contains(., "Teams")]/following-sibling::div/text()''),
      (''season'', ''//div[@class="league-details"]/div[@class="detail season"]''
                   @ ''/div[contains(., "Season")]/following-sibling::div/text()''),
      (''all_matches_count'', ''//div[@class="league-details"]/div[@class="detail season"]''
                              @ ''/div[contains(., "Matches")]/following-sibling::div/text()''),
      (''image_url'', ''//div[@id="teamSummary"]/img/@src'')]\<close>

text \<open>\<^verbatim>\<open>loader.load_item()\<close> of \<^verbatim>\<open>parse_season\<close>: the League item before its hash is assigned.\<close>

definition load_league :: "declarations \<Rightarrow> response \<Rightarrow> pydict \<Rightarrow> pydict" where
  "load_league decl response kwargs =
     load_item (decl League)
       (add_xpaths (decl League) response league_xpaths
          (add_value (decl League) ''country'' (dict_get kwargs ''country'') []))"

definition matches_xpath :: string where
  \<open>matches_xpath = ''//div[@id="teamSummary"]/ul[contains(@class, "secondary-nav")]/''
                    @ ''li[contains(@class, "middle")]/a''\<close>

text \<open>
  The second half of \<^verbatim>\<open>parse_season\<close>, after the League item has been yielded: the branch on
  the \<^verbatim>\<open>href\<close> of the matches link.
\<close>

definition season_matches :: "response \<Rightarrow> pydict \<Rightarrow> generator" where
  "season_matches response league =
     (let matches = xpath_nodes response matches_xpath;
          href = get_first (xpath_attr matches ''href'')
      in if href = Some ''#'' then
           (case getitem (selectorlist_attrib matches) ''data-hash'' of
              Inl e \<Rightarrow> ([], Some e) | Inr data_hash \<Rightarrow>
            case getitem (selectorlist_attrib matches) ''data-zzz'' of
              Inl e \<Rightarrow> ([], Some e) | Inr data_zzz \<Rightarrow>
            case getitem (selectorlist_attrib matches) ''data-z'' of
              Inl e \<Rightarrow> ([], Some e) | Inr data_z \<Rightarrow>
            case getitem league ''hash'' of
              Inl e \<Rightarrow> ([], Some e) | Inr league_hash \<Rightarrow>
            ([Request (FormRequest (make_url ''ajax_league.php'') ''POST''
                         [(''hash'', data_hash), (''zzz'', data_zzz), (''cur'', data_z)]
                         Parse_matches [(''league_hash'', league_hash)])], None))
         else (case href of
                 Some (c # cs) \<Rightarrow>
                   (case getitem league ''hash'' of
                      Inl e \<Rightarrow> ([], Some e) | Inr league_hash \<Rightarrow>
                    case follow response (c # cs) Parse_matches [(''league_hash'', league_hash)] of
                      Inl e \<Rightarrow> ([], Some e) | Inr request \<Rightarrow>
                    ([Request request], None))
               | _ \<Rightarrow> ([Item League (setitem league ''blocked'' (PBool True))], None)))"

definition parse_season :: "declarations \<Rightarrow> response \<Rightarrow> pydict \<Rightarrow> generator" where
  "parse_season decl response kwargs =
     (let league = load_league decl response kwargs in
      case getitem league ''title'' of Inl e \<Rightarrow> ([], Some e) | Inr title \<Rightarrow>
      case getitem league ''season'' of Inl e \<Rightarrow> ([], Some e) | Inr season \<Rightarrow>
      (let league = setitem league ''hash''
                      (PStr (md5_hexdigest (encode (str_list [title, season]))))
       in case season_matches response league of
            (later, err) \<Rightarrow> (Item League league # later, err)))"

subsection \<open>\<^verbatim>\<open>parse_matches\<close>\<close>

definition matches_table_xpath :: string where
  \<open>matches_table_xpath = ''//table[contains(@class, "matches-table")]/tr/''
                          @ ''td[contains(@class, "link")]/a/@href''\<close>


subsection \<open>\<^verbatim>\<open>parse_match\<close>\<close>

definition match_xpaths :: "(string \<times> string) list" where
  \<open>match_xpaths =
     [(''timestamp'', ''//p[@data-time]/@data-time''),
      (''home_team'', ''//span[@itemprop="homeTeam"]/span[@itemprop="name"]/@content''),
      (''away_team'', ''//span[@itemprop="awayTeam"]/span[@itemprop="name"]/@content''),
      (''stadium'', ''//small/span[@itemprop="name"]/text()''),
      (''home_result'', ''//div[contains(@class, "h2h-final-score")]/''
                        @ ''div[@class="widget-content"]/h2/text()''),
      (''away_result'', ''//div[contains(@class, "h2h-final-score")]/''
                        @ ''div[@class="widget-content"]/h2/text()'')]\<close>

definition load_match :: "declarations \<Rightarrow> response \<Rightarrow> pydict \<Rightarrow> pydict" where
  "load_match decl response kwargs =
     load_item (decl Match)
       (add_xpaths (decl Match) response match_xpaths
          (add_value (decl Match) ''league_hash'' (dict_get kwargs ''league_hash'') []))"

definition statistics_xpaths :: "(string \<times> string) list" where
  \<open>statistics_xpaths =
     [(''possession'', ''//span[contains(@class, "possession")]/text()''),
      (''shots'', ''//div[@class="w100 m0Auto"]/div/div[contains(text(), "Shots")]''
                  @ ''/following-sibling::div[contains(@class, "bbox")]/span/text()''),
      (''cards'', ''//div[@class="w100 m0Auto"]/div/div[contains(text(), "Cards")]''
                  @ ''/following-sibling::div[contains(@class, "bbox")]/span/text()''),
      (''corners'', ''//div[@class="w100 m0Auto"]/div/div[contains(text(), "Corners")]''
                    @ ''/following-sibling::div[contains(@class, "bbox")]/span/text()''),
      (''fouls'', ''//div[@class="w100 m0Auto"]/div/div[contains(text(), "Fouls")]''
                  @ ''/following-sibling::div[contains(@class, "bbox")]/span/text()''),
      (''offsides'', ''//div[@class="w100 m0Auto"]/div/div[contains(text(), "Offsides")]''
                     @ ''/following-sibling::div[contains(@class, "bbox")]/span/text()'')]\<close>

definition load_statistics :: "declarations \<Rightarrow> response \<Rightarrow> pyval \<Rightarrow> pydict" where
  "load_statistics decl response match_hash =
     load_item (decl PostMatchStatistics)
       (add_xpaths (decl PostMatchStatistics) response statistics_xpaths
          (add_value (decl PostMatchStatistics) ''match_hash'' match_hash []))"

definition statistics_panel_xpath :: string where
  \<open>statistics_panel_xpath = ''//div[@class="w100 cf ac"]''\<close>

text \<open>
  The second half of \<^verbatim>\<open>parse_match\<close>, after the Match item has been yielded: the statistics
  record, when the page has the statistics panel.
\<close>

definition match_statistics :: "declarations \<Rightarrow> response \<Rightarrow> pydict \<Rightarrow> generator" where
  "match_statistics decl response match =
     (if xpath_nodes response statistics_panel_xpath \<noteq> [] then
        (case getitem match ''hash'' of
           Inl e \<Rightarrow> ([], Some e) | Inr match_hash \<Rightarrow>
         ([Item PostMatchStatistics (load_statistics decl response match_hash)], None))
      else ([], None))"

definition parse_match :: "declarations \<Rightarrow> response \<Rightarrow> pydict \<Rightarrow> generator" where
  "parse_match decl response kwargs =
     (let match = load_match decl response kwargs in
      case getitem match ''league_hash'' of Inl e \<Rightarrow> ([], Some e) | Inr league_hash \<Rightarrow>
      case getitem match ''timestamp'' of Inl e \<Rightarrow> ([], Some e) | Inr timestamp \<Rightarrow>
      case getitem match ''home_team'' of Inl e \<Rightarrow> ([], Some e) | Inr home_team \<Rightarrow>
      case getitem match ''away_team'' of Inl e \<Rightarrow> ([], Some e) | Inr away_team \<Rightarrow>
      (let fields = [league_hash, timestamp, home_team, away_team];
           match = setitem match ''hash'' (PStr (md5_hexdigest (encode (str_list fields))))
       in case match_statistics decl response match of
            (later, err) \<Rightarrow> (Item Match match # later, err)))"

section \<open>Recomputing a hash from a stored record\<close>

text \<open>
  The hash of a League record recomputed from its stored \<^verbatim>\<open>title\<close> and \<^verbatim>\<open>season\<close>, and the
  hash of a Match record recomputed from its stored \<^verbatim>\<open>league_hash\<close>, \<^verbatim>\<open>timestamp\<close>,
  \<^verbatim>\<open>home_team\<close> and \<^verbatim>\<open>away_team\<close>, with the expression the parsers use.
\<close>

definition recompute_league_hash :: "pydict \<Rightarrow> error + pyval" where
  "recompute_league_hash league =
     (case getitem league ''title'' of Inl e \<Rightarrow> Inl e | Inr title \<Rightarrow>
      case getitem league ''season'' of Inl e \<Rightarrow> Inl e | Inr season \<Rightarrow>
      Inr (PStr (md5_hexdigest (encode (str_list [title, season])))))"

definition recompute_match_hash :: "pydict \<Rightarrow> error + pyval" where
  "recompute_match_hash match =
     (case getitem match ''league_hash'' of Inl e \<Rightarrow> Inl e | Inr league_hash \<Rightarrow>
      case getitem match ''timestamp'' of Inl e \<Rightarrow> Inl e | Inr timestamp \<Rightarrow>
      case getitem match ''home_team'' of Inl e \<Rightarrow> Inl e | Inr home_team \<Rightarrow>
      case getitem match ''away_team'' of Inl e \<Rightarrow> Inl e | Inr away_team \<Rightarrow>
      Inr (PStr (md5_hexdigest (encode (str_list [league_hash, timestamp, home_team, away_team])))))"

text \<open>
  The parsers subscript the fields of a hash in a fixed order; \<open>first_missing\<close> is the first
  of them that the loaded item lacks, the key of the \<^verbatim>\<open>KeyError\<close> that is then raised.
\<close>

definition first_missing :: "pydict \<Rightarrow> string list \<Rightarrow> string option" where
  "first_missing d ks = find (\<lambda>k. map_of d k = None) ks"

text \<open>
  What \<^verbatim>\<open>load_item\<close> stores in a field to which \<^verbatim>\<open>add_value\<close> added the single value \<open>v\<close>
  and nothing else, under the processors \<open>p\<close> the field declares; \<open>None\<close> when the field is
  not set.
\<close>

definition loaded_value :: "processors \<Rightarrow> pyval \<Rightarrow> pyval option" where
  "loaded_value p v =
     (let processed = input_processor p (arg_to_iter v) in
      if truthy processed
      then (let out = output_processor p (arg_to_iter processed) in
            if out \<noteq> PNone then Some out else None)
      else None)"

section \<open>Reading a parser's outputs\<close>

text \<open>
  The items of one class and the requests among the outputs of a parser, in the order of
  their \<^verbatim>\<open>yield\<close>; and the \<^verbatim>\<open>href\<close> on which \<^verbatim>\<open>parse_season\<close> branches.
\<close>

definition items_of :: "item_class \<Rightarrow> spider_output list \<Rightarrow> pydict list" where
  "items_of c outs =
     concat (map (\<lambda>out. case out of Item c' d \<Rightarrow> (if c' = c then [d] else []) | Request r \<Rightarrow> []) outs)"

definition requests_of :: "spider_output list \<Rightarrow> request list" where
  "requests_of outs = concat (map (\<lambda>out. case out of Item c d \<Rightarrow> [] | Request r \<Rightarrow> [r]) outs)"

definition matches_href :: "response \<Rightarrow> string option" where
  "matches_href response = get_first (xpath_attr (xpath_nodes response matches_xpath) ''href'')"

definition matches_attrib :: "response \<Rightarrow> (string \<times> string) list" where
  "matches_attrib response = selectorlist_attrib (xpath_nodes response matches_xpath)"

definition has_statistics_panel :: "response \<Rightarrow> bool" where
  "has_statistics_panel response = (xpath_nodes response statistics_panel_xpath \<noteq> [])"

section \<open>Reading a string form back\<close>




section \<open>Example pages\<close>

text \<open>
  A page given by the texts and the elements that its queries return; a query that is not
  listed matches nothing. \<open>xpath_for\<close> looks up the query with which a loader fills a field.
\<close>

definition xpath_for :: "(string \<times> string) list \<Rightarrow> string \<Rightarrow> string" where
  "xpath_for qs field_name = (case map_of qs field_name of None \<Rightarrow> [] | Some q \<Rightarrow> q)"

text \<open>
  The example pages use root-relative links and links that carry their own scheme: the
  first are resolved against \<open>base_url\<close>, the second are left as they are.
\<close>

definition site_url :: "string \<Rightarrow> string" where
  "site_url u = (if startswith u ''/'' then base_url @ u else u)"

definition page :: "(string \<times> string list) list \<Rightarrow> (string \<times> node list) list \<Rightarrow> response" where
  "page texts nodes =
     \<lparr>xpath_text = (\<lambda>q. case map_of texts q of None \<Rightarrow> [] | Some ts \<Rightarrow> ts),
      xpath_nodes = (\<lambda>q. case map_of nodes q of None \<Rightarrow> [] | Some ns \<Rightarrow> ns),
      follow_url = site_url\<rparr>"

definition example_kwargs :: pydict where
  "example_kwargs = [(''country'', PStr ''england'')]"

definition season_texts :: "(string \<times> string list) list" where
  "season_texts = [(xpath_for league_xpaths ''title'', [''Premier League'']),
                   (xpath_for league_xpaths ''season'', [''2020/2021''])]"

definition link_page :: response where
  "link_page = page season_texts
     [(matches_xpath, [Node [(''href'', ''/england/premier-league/fixtures'')] (\<lambda>_. [])])]"

definition ajax_page :: response where
  "ajax_page = page season_texts
     [(matches_xpath,
       [Node [(''href'', ''#''), (''data-hash'', ''a1''), (''data-zzz'', ''b2''), (''data-z'', ''c3'')]
             (\<lambda>_. [])])]"

definition blocked_page :: response where
  "blocked_page = page season_texts [(matches_xpath, [Node [(''class'', ''disabled'')] (\<lambda>_. [])])]"

definition example_league :: pydict where
  "example_league =
     [(''country'', PStr ''england''), (''title'', PStr ''Premier League''),
      (''season'', PStr ''2020/2021''), (''hash'', PStr ''e4415541524ca67337fadfa0f3adf9bd'')]"


definition ajax_page_no_season :: response where
  "ajax_page_no_season = page [(xpath_for league_xpaths ''title'', [''Premier League''])]
     [(matches_xpath,
       [Node [(''href'', ''#''), (''data-hash'', ''a1''), (''data-zzz'', ''b2''), (''data-z'', ''c3'')]
             (\<lambda>_. [])])]"

definition empty_page :: response where
  "empty_page = page [] []"

definition match_kwargs :: pydict where
  "match_kwargs = [(''league_hash'', PStr ''e4415541524ca67337fadfa0f3adf9bd'')]"

definition match_texts :: "(string \<times> string list) list" where
  "match_texts =
     [(xpath_for match_xpaths ''timestamp'', [''1600000000'']),
      (xpath_for match_xpaths ''home_team'', [''Arsenal'']),
      (xpath_for match_xpaths ''away_team'', [''Chelsea'']),
      (xpath_for match_xpaths ''stadium'', [''Emirates Stadium'']),
      (xpath_for match_xpaths ''home_result'', [''2 - 1'']),
      (xpath_for statistics_xpaths ''possession'', [''55%'', ''45%''])]"

definition match_page :: response where
  "match_page = page match_texts []"

definition statistics_page :: response where
  "statistics_page = page match_texts
     [(statistics_panel_xpath, [Node [(''class'', ''w100 cf ac'')] (\<lambda>_. [])])]"

definition match_page_no_timestamp :: response where
  "match_page_no_timestamp =
     page [(xpath_for match_xpaths ''home_team'', [''Arsenal'']),
           (xpath_for match_xpaths ''away_team'', [''Chelsea''])] []"

definition example_match_hash :: string where
  "example_match_hash =
     md5_hexdigest (encode (str_list
       [PStr ''e4415541524ca67337fadfa0f3adf9bd'', PStr ''1600000000'', PStr ''Arsenal'',
        PStr ''Chelsea'']))"

definition example_match :: pydict where
  "example_match =
     [(''league_hash'', PStr ''e4415541524ca67337fadfa0f3adf9bd''),
      (''timestamp'', PStr ''1600000000''), (''home_team'', PStr ''Arsenal''),
      (''away_team'', PStr ''Chelsea''), (''stadium'', PStr ''Emirates Stadium''),
      (''home_result'', PStr ''2 - 1''), (''away_result'', PStr ''2 - 1''),
      (''hash'', PStr example_match_hash)]"

definition leagues_page :: response where
  "leagues_page = page []
     [(country_selectors_xpath,
       [Node [(''class'', ''pt2e''), (''id'', ''england'')]
          (\<lambda>q. if q = leagues_urls_xpath
                then [''/england/premier-league'', ''/england/championship'', ''/england/fa-cup'']
                else []),
        Node [(''class'', ''pt2e''), (''id'', ''spain'')]
          (\<lambda>q. if q = leagues_urls_xpath
                then [''/spain/la-liga'', ''/spain/segunda-division'', ''/spain/copa-del-rey'']
                else [])])]"



definition leagues_page_no_id :: response where
  "leagues_page_no_id = page []
     [(country_selectors_xpath,
       [Node [(''class'', ''pt2e'')]
          (\<lambda>q. if q = leagues_urls_xpath
                then [''/england/premier-league'', ''/england/championship'', ''/england/fa-cup'']
                else []),
        Node [(''class'', ''pt2e''), (''id'', ''spain'')]
          (\<lambda>q. if q = leagues_urls_xpath
                then [''/spain/la-liga'', ''/spain/segunda-division'', ''/spain/copa-del-rey'']
                else [])])]"

definition leagues_page_mailto :: response where
  "leagues_page_mailto = page []
     [(country_selectors_xpath,
       [Node [(''class'', ''pt2e''), (''id'', ''england'')]
          (\<lambda>q. if q = leagues_urls_xpath
                then [''/england/premier-league'', ''mailto:info@example.org'', ''/england/fa-cup'']
                else []),
        Node [(''class'', ''pt2e''), (''id'', ''spain'')]
          (\<lambda>q. if q = leagues_urls_xpath
                then [''/spain/la-liga'', ''/spain/segunda-division'', ''/spain/copa-del-rey'']
                else [])])]"




section \<open>Dictionaries and loaders\<close>

lemma map_of_setitem: "map_of (setitem d k v) = (map_of d)(k \<mapsto> v)"
  by (induction d) (auto simp: fun_eq_iff)

lemma map_fst_setitem:
  "map fst (setitem d k v) = (if k \<in> set (map fst d) then map fst d else map fst d @ [k])"
  by (induction d) (force simp: image_iff)+

lemma distinct_setitem: "distinct (map fst d) \<Longrightarrow> distinct (map fst (setitem d k v))"
  by (simp add: map_fst_setitem)

lemma getitem_Inr_iff: "getitem d k = Inr v \<longleftrightarrow> map_of d k = Some v"
  by (simp add: getitem_def split: option.splits)

lemma getitem_Inl_iff: "getitem d k = Inl e \<longleftrightarrow> map_of d k = None \<and> e = KeyError k"
  by (auto simp: getitem_def split: option.splits)

lemma getitem_setitem_same: "getitem (setitem d k v) k = Inr v"
  by (simp add: getitem_def map_of_setitem)

lemma distinct_add_value: "distinct (map fst l) \<Longrightarrow> distinct (map fst (add_value decl f v l))"
  by (simp add: add_value_def Let_def distinct_setitem)

lemma map_of_add_value_other: "f' \<noteq> f \<Longrightarrow> map_of (add_value decl f v l) f' = map_of l f'"
  by (simp add: add_value_def Let_def map_of_setitem)

lemma distinct_add_xpaths:
  "distinct (map fst l) \<Longrightarrow> distinct (map fst (add_xpaths decl r qs l))"
proof (induction qs arbitrary: l)
  case Nil
  then show ?case by (simp add: add_xpaths_def)
next
  case (Cons q qs)
  obtain f x where q: "q = (f, x)" by (cases q)
  have "add_xpaths decl r (q # qs) l = add_xpaths decl r qs (add_xpath decl r f x l)"
    by (simp add: add_xpaths_def q)
  then show ?case using Cons by (simp add: add_xpath_def distinct_add_value)
qed

lemma map_of_add_xpaths_other:
  "f' \<notin> fst ` set qs \<Longrightarrow> map_of (add_xpaths decl r qs l) f' = map_of l f'"
proof (induction qs arbitrary: l)
  case Nil
  then show ?case by (simp add: add_xpaths_def)
next
  case (Cons q qs)
  obtain f x where q: "q = (f, x)" by (cases q)
  have "add_xpaths decl r (q # qs) l = add_xpaths decl r qs (add_xpath decl r f x l)"
    by (simp add: add_xpaths_def q)
  then show ?case using Cons q by (simp add: add_xpath_def map_of_add_value_other)
qed

lemma map_of_fold_load:
  "distinct (map fst l) \<Longrightarrow>
   map_of (fold (load_field decl) l item) f =
     (case map_of l f of
        None \<Rightarrow> map_of item f
      | Some vs \<Rightarrow> if output_processor (decl f) vs \<noteq> PNone
                   then Some (output_processor (decl f) vs) else map_of item f)"
proof (induction l arbitrary: item)
  case Nil
  then show ?case by simp
next
  case (Cons p l)
  obtain g vs where p: "p = (g, vs)" by (cases p)
  from Cons.prems p have d: "distinct (map fst l)" and g: "g \<notin> fst ` set l" by auto
  from g have m: "map_of l g = None" by (simp add: map_of_eq_None_iff)
  show ?case
    using Cons.IH [OF d] m p
    by (auto simp: load_field_def Let_def map_of_setitem split: option.splits)
qed

lemma map_of_load_item:
  "distinct (map fst l) \<Longrightarrow>
   map_of (load_item decl l) f =
     (case map_of l f of
        None \<Rightarrow> None
      | Some vs \<Rightarrow> if output_processor (decl f) vs \<noteq> PNone
                   then Some (output_processor (decl f) vs) else None)"
  by (simp add: load_item_def map_of_fold_load split: option.splits)

section \<open>The digest\<close>

lemma length_md5_digest: "length (md5_digest msg) = 16"
  by (simp add: md5_digest_def le_bytes32_def split: prod.splits)

lemma length_md5_hexdigest: "length (md5_hexdigest msg) = 32"
proof -
  have "length (concat (map hex_byte bs)) = 2 * length bs" for bs
    by (induction bs) (simp_all add: hex_byte_def)
  then show ?thesis by (simp add: md5_hexdigest_def length_md5_digest)
qed

lemma hex_digit_in: "hex_digit n \<in> set hexdigits"
proof -
  have "unat (n AND 0xf) \<le> unat (0xf :: byte)"
    by (rule word_and_le1 [THEN word_le_nat_alt [THEN iffD1]])
  then have "unat (n AND 0xf) < length hexdigits" by (simp add: hexdigits_def)
  then show ?thesis unfolding hex_digit_def by (rule nth_mem)
qed

lemma set_hex_byte: "set (hex_byte b) \<subseteq> set hexdigits"
  unfolding hex_byte_def using hex_digit_in by simp

lemma set_md5_hexdigest: "set (md5_hexdigest msg) \<subseteq> set hexdigits"
  unfolding md5_hexdigest_def using set_hex_byte by auto

section \<open>Evaluating the examples\<close>

lemmas page_eval =
  load_league_def load_match_def load_statistics_def load_item_def load_field_def add_xpaths_def add_xpath_def
  add_value_def league_xpaths_def match_xpaths_def statistics_xpaths_def xpath_for_def page_def
  season_texts_def take_first_fields_def identity_fields_def Identity_def dict_get_def
  example_kwargs_def matches_xpath_def xpath_attr_def get_first_def selectorlist_attrib_def
  getitem_def statistics_panel_xpath_def matches_table_xpath_def make_url_def base_url_def
  matches_href_def matches_attrib_def has_statistics_panel_def match_texts_def match_kwargs_def
  follow_def has_scheme_def site_url_def

lemma example_hash:
  "md5_hexdigest (encode (str_list [PStr ''Premier League'', PStr ''2020/2021'']))
     = ''e4415541524ca67337fadfa0f3adf9bd''"
  by code_simp

lemma load_league_example:
  "load_league take_first_fields link_page example_kwargs =
     [(''country'', PStr ''england''), (''title'', PStr ''Premier League''),
      (''season'', PStr ''2020/2021'')]"
  by (simp add: page_eval link_page_def)

lemma parse_season_link_page:
  "parse_season take_first_fields link_page example_kwargs =
     ([Item League example_league,
       Request (Follow ''/england/premier-league/fixtures'' Parse_matches
                  [(''league_hash'', PStr ''e4415541524ca67337fadfa0f3adf9bd'')])], None)"
  by (simp add: parse_season_def season_matches_def Let_def page_eval link_page_def example_hash
      example_league_def)

section \<open>The branches of the parsers\<close>

lemma season_matches_blocked:
  assumes "get_first (xpath_attr (xpath_nodes response matches_xpath) ''href'') = None
           \<or> get_first (xpath_attr (xpath_nodes response matches_xpath) ''href'') = Some []"
  shows "season_matches response league = ([Item League (setitem league ''blocked'' (PBool True))], None)"
  using assms by (auto simp: season_matches_def Let_def)


lemma follow_accepted:
  "has_scheme (follow_url response u) \<Longrightarrow> follow response u cb kwargs = Inr (Follow u cb kwargs)"
  by (simp add: follow_def)

lemma has_scheme_make_url: "has_scheme (make_url path)"
  by (simp add: has_scheme_def make_url_def base_url_def)

lemma season_matches_link:
  assumes "get_first (xpath_attr (xpath_nodes response matches_xpath) ''href'') = Some h"
    and "h \<noteq> ''#''" and "h \<noteq> []"
  shows "season_matches response league =
           (case getitem league ''hash'' of
              Inl e \<Rightarrow> ([], Some e)
            | Inr league_hash \<Rightarrow>
                (case follow response h Parse_matches [(''league_hash'', league_hash)] of
                   Inl e \<Rightarrow> ([], Some e)
                 | Inr request \<Rightarrow> ([Request request], None)))"
proof -
  from \<open>h \<noteq> []\<close> obtain c cs where "h = c # cs" by (cases h) auto
  then show ?thesis using assms by (auto simp: season_matches_def Let_def)
qed

lemma season_matches_ajax:
  assumes "get_first (xpath_attr (xpath_nodes response matches_xpath) ''href'') = Some ''#''"
  shows "season_matches response league =
           (case getitem (selectorlist_attrib (xpath_nodes response matches_xpath)) ''data-hash'' of
              Inl e \<Rightarrow> ([], Some e) | Inr data_hash \<Rightarrow>
            case getitem (selectorlist_attrib (xpath_nodes response matches_xpath)) ''data-zzz'' of
              Inl e \<Rightarrow> ([], Some e) | Inr data_zzz \<Rightarrow>
            case getitem (selectorlist_attrib (xpath_nodes response matches_xpath)) ''data-z'' of
              Inl e \<Rightarrow> ([], Some e) | Inr data_z \<Rightarrow>
            case getitem league ''hash'' of
              Inl e \<Rightarrow> ([], Some e) | Inr league_hash \<Rightarrow>
            ([Request (FormRequest (make_url ''ajax_league.php'') ''POST''
                         [(''hash'', data_hash), (''zzz'', data_zzz), (''cur'', data_z)]
                         Parse_matches [(''league_hash'', league_hash)])], None))"
  using assms by (simp add: season_matches_def Let_def)

lemma href_cases:
  obtains (blocked) "href = None \<or> href = Some []"
  | (ajax) "href = Some ''#''"
  | (link) h where "href = Some h" "h \<noteq> ''#''" "h \<noteq> []"
  by (cases href) auto

lemma season_matches_item:
  assumes "Item c x \<in> set (fst (season_matches response league))"
  shows "c = League \<and> x = setitem league ''blocked'' (PBool True)"
proof (cases "get_first (xpath_attr (xpath_nodes response matches_xpath) ''href'')" rule: href_cases)
  case blocked
  then show ?thesis using assms by (simp add: season_matches_blocked)
next
  case ajax
  then show ?thesis using assms by (simp add: season_matches_ajax split: sum.splits)
next
  case (link h)
  then show ?thesis using assms by (simp add: season_matches_link split: sum.splits)
qed


text \<open>What parse_season returns, by whether the fields of the hash were loaded.\<close>

lemma parse_season_loaded:
  assumes "map_of (load_league decl response kwargs) ''title'' = Some title"
    and "map_of (load_league decl response kwargs) ''season'' = Some season"
  shows "parse_season decl response kwargs =
           (let league = setitem (load_league decl response kwargs) ''hash''
                           (PStr (md5_hexdigest (encode (str_list [title, season]))))
            in (Item League league # fst (season_matches response league),
                snd (season_matches response league)))"
  using assms by (simp add: parse_season_def Let_def getitem_def split: prod.splits)

lemma parse_season_missing:
  assumes "map_of (load_league decl response kwargs) ''title'' = None
           \<or> map_of (load_league decl response kwargs) ''season'' = None"
  shows "parse_season decl response kwargs =
           ([], Some (KeyError (if map_of (load_league decl response kwargs) ''title'' = None
                                then ''title'' else ''season'')))"
  using assms by (auto simp: parse_season_def Let_def getitem_def split: option.splits)

lemma parse_season_items:
  assumes "Item League league \<in> set (fst (parse_season decl response kwargs))"
  obtains title season b where
    "map_of (load_league decl response kwargs) ''title'' = Some title"
    "map_of (load_league decl response kwargs) ''season'' = Some season"
    "league = (let l = setitem (load_league decl response kwargs) ''hash''
                  (PStr (md5_hexdigest (encode (str_list [title, season]))))
               in if b then setitem l ''blocked'' (PBool True) else l)"
proof -
  let ?L = "load_league decl response kwargs"
  have "\<not> (map_of ?L ''title'' = None \<or> map_of ?L ''season'' = None)"
  proof
    assume "map_of ?L ''title'' = None \<or> map_of ?L ''season'' = None"
    from parse_season_missing [OF this] assms show False by simp
  qed
  then obtain title season where t: "map_of ?L ''title'' = Some title"
    and s: "map_of ?L ''season'' = Some season" by auto
  let ?l = "setitem ?L ''hash'' (PStr (md5_hexdigest (encode (str_list [title, season]))))"
  from assms have "league = ?l \<or> Item League league \<in> set (fst (season_matches response ?l))"
    by (simp add: parse_season_loaded [OF t s] Let_def)
  then have "league = ?l \<or> league = setitem ?l ''blocked'' (PBool True)"
    using season_matches_item by blast
  then have "league = (let l = ?l in if league \<noteq> ?l then setitem l ''blocked'' (PBool True) else l)"
    by (auto simp: Let_def)
  with t s show ?thesis by (rule that)
qed


lemma match_statistics_present:
  assumes "xpath_nodes response statistics_panel_xpath \<noteq> []"
    and "map_of match ''hash'' = Some match_hash"
  shows "match_statistics decl response match =
           ([Item PostMatchStatistics (load_statistics decl response match_hash)], None)"
  using assms by (simp add: match_statistics_def getitem_def)

lemma match_statistics_absent:
  assumes "xpath_nodes response statistics_panel_xpath = []"
  shows "match_statistics decl response match = ([], None)"
  using assms by (simp add: match_statistics_def)

lemma match_statistics_no_match:
  "Item Match x \<notin> set (fst (match_statistics decl response match))"
  by (simp add: match_statistics_def split: sum.splits)

lemma parse_match_loaded:
  assumes "map_of (load_match decl response kwargs) ''league_hash'' = Some league_hash"
    and "map_of (load_match decl response kwargs) ''timestamp'' = Some timestamp"
    and "map_of (load_match decl response kwargs) ''home_team'' = Some home_team"
    and "map_of (load_match decl response kwargs) ''away_team'' = Some away_team"
  shows "parse_match decl response kwargs =
           (let match = setitem (load_match decl response kwargs) ''hash''
                          (PStr (md5_hexdigest (encode (str_list
                             [league_hash, timestamp, home_team, away_team]))))
            in (Item Match match # fst (match_statistics decl response match),
                snd (match_statistics decl response match)))"
  using assms by (simp add: parse_match_def Let_def getitem_def split: prod.splits)

lemma parse_match_missing:
  assumes "first_missing (load_match decl response kwargs)
             [''league_hash'', ''timestamp'', ''home_team'', ''away_team''] = Some k"
  shows "parse_match decl response kwargs = ([], Some (KeyError k))"
  using assms
  by (auto simp: parse_match_def first_missing_def Let_def getitem_def
      split: option.splits if_splits)

lemma first_missing_None_iff:
  "first_missing d ks = None \<longleftrightarrow> (\<forall>k \<in> set ks. map_of d k \<noteq> None)"
  by (auto simp: first_missing_def find_None_iff)

lemma parse_match_items:
  assumes "Item Match match \<in> set (fst (parse_match decl response kwargs))"
  obtains league_hash timestamp home_team away_team where
    "map_of (load_match decl response kwargs) ''league_hash'' = Some league_hash"
    "map_of (load_match decl response kwargs) ''timestamp'' = Some timestamp"
    "map_of (load_match decl response kwargs) ''home_team'' = Some home_team"
    "map_of (load_match decl response kwargs) ''away_team'' = Some away_team"
    "match = setitem (load_match decl response kwargs) ''hash''
               (PStr (md5_hexdigest (encode (str_list
                   [league_hash, timestamp, home_team, away_team]))))"
proof -
  let ?M = "load_match decl response kwargs"
  let ?ks = "[''league_hash'', ''timestamp'', ''home_team'', ''away_team'']"
  have "first_missing ?M ?ks = None"
  proof (cases "first_missing ?M ?ks")
    case (Some k)
    from parse_match_missing [OF this] assms show ?thesis by simp
  qed simp
  then obtain a b c d where p: "map_of ?M ''league_hash'' = Some a"
    "map_of ?M ''timestamp'' = Some b" "map_of ?M ''home_team'' = Some c"
    "map_of ?M ''away_team'' = Some d"
    by (auto simp: first_missing_None_iff)
  from assms have "match = setitem ?M ''hash''
               (PStr (md5_hexdigest (encode (str_list [a, b, c, d]))))"
    using match_statistics_no_match by (simp add: parse_match_loaded [OF p] Let_def)
  with p show ?thesis by (rule that)
qed

section \<open>What the loaders store\<close>

lemma distinct_loader:
  "distinct (map fst (add_xpaths decl r qs (add_value decl f v [])))"
  by (rule distinct_add_xpaths, rule distinct_add_value) simp

lemma map_of_add_value_single:
  "map_of (add_value decl f v []) f =
     (if truthy (input_processor (decl f) (arg_to_iter v))
      then Some (arg_to_iter (input_processor (decl f) (arg_to_iter v))) else None)"
  by (simp add: add_value_def Let_def)

lemma map_of_loaded_single:
  assumes "f \<notin> fst ` set qs"
  shows "map_of (load_item decl (add_xpaths decl r qs (add_value decl f v []))) f
           = loaded_value (decl f) v"
  using assms
  by (simp add: map_of_load_item [OF distinct_loader] map_of_add_xpaths_other
      map_of_add_value_single loaded_value_def Let_def)

lemma map_of_loaded_other:
  assumes "f' \<notin> fst ` set qs" and "f' \<noteq> f"
  shows "map_of (load_item decl (add_xpaths decl r qs (add_value decl f v []))) f' = None"
  using assms
  by (simp add: map_of_load_item [OF distinct_loader] map_of_add_xpaths_other
      map_of_add_value_other)

lemma league_not_blocked: "map_of (load_league decl response kwargs) ''blocked'' = None"
  unfolding load_league_def
  by (rule map_of_loaded_other) (simp_all add: league_xpaths_def)

lemma statistics_match_hash:
  "map_of (load_statistics decl response v) ''match_hash''
     = loaded_value (decl PostMatchStatistics ''match_hash'') v"
  unfolding load_statistics_def
  by (rule map_of_loaded_single) (simp add: statistics_xpaths_def)


lemma parse_season_present:
  assumes "first_missing (load_league decl response kwargs) [''title'', ''season''] = None"
  obtains title season where
    "map_of (load_league decl response kwargs) ''title'' = Some title"
    "map_of (load_league decl response kwargs) ''season'' = Some season"
  using assms by (auto simp: first_missing_None_iff)

lemma parse_season_blocked_page:
  "parse_season take_first_fields blocked_page example_kwargs =
     ([Item League example_league,
       Item League (example_league @ [(''blocked'', PBool True)])], None)"
  by (simp add: parse_season_def season_matches_def Let_def page_eval blocked_page_def example_hash
      example_league_def)

lemma md5_hexdigest_nonempty: "md5_hexdigest msg \<noteq> []"
  using length_md5_hexdigest [of msg] by auto

lemma example_match_hash_nonempty: "example_match_hash \<noteq> []"
  by (simp add: example_match_hash_def md5_hexdigest_nonempty)

lemma parse_match_match_page:
  "parse_match take_first_fields match_page match_kwargs = ([Item Match example_match], None)"
  by (simp add: parse_match_def match_statistics_def Let_def page_eval match_page_def
      example_match_def example_match_hash_def)

lemma parse_match_statistics_page:
  "parse_match take_first_fields statistics_page match_kwargs =
     ([Item Match example_match,
       Item PostMatchStatistics
         [(''match_hash'', PStr example_match_hash), (''possession'', PStr ''55%'')]], None)"
  by (simp add: parse_match_def match_statistics_def Let_def page_eval statistics_page_def
      example_match_def example_match_hash_def [symmetric] example_match_hash_nonempty)

lemma parse_season_first_missing:
  assumes "first_missing (load_league decl response kwargs) [''title'', ''season''] = Some k"
  shows "parse_season decl response kwargs = ([], Some (KeyError k))"
  using assms
  by (auto simp: parse_season_def first_missing_def Let_def getitem_def
      split: option.splits if_splits)

lemma loaded_value_take_first:
  "s \<noteq> [] \<Longrightarrow> loaded_value (take_first_fields c f) (PStr s) = Some (PStr s)"
  by (simp add: loaded_value_def take_first_fields_def Identity_def)

lemma follow_leagues_accepted:
  assumes "list_all (\<lambda>u. has_scheme (follow_url response u)) urls"
  shows "follow_leagues response country urls =
           (map (\<lambda>url. Request (Follow url Parse_league [(''country'', PStr country)])) urls, None)"
  using assms by (induction urls) (simp_all add: follow_accepted)

lemma parse_leagues_loop_Cons:
  assumes "map_of (attrib selector) ''id'' = Some country"
    and "list_all (\<lambda>u. has_scheme (follow_url response u)) (select selector leagues_urls_xpath)"
  shows "parse_leagues_loop response (selector # rest) =
           (map (\<lambda>url. Request (Follow url Parse_league [(''country'', PStr country)]))
                (select selector leagues_urls_xpath)
            @ fst (parse_leagues_loop response rest), snd (parse_leagues_loop response rest))"
  using assms
  by (simp add: getitem_def follow_leagues_accepted split: prod.splits)

lemma map_of_add_xpaths_once:
  assumes "distinct (map fst qs)" and "map_of qs f = Some q"
  shows "map_of (add_xpaths decl r qs l) f = map_of (add_xpath decl r f q l) f"
  using assms
proof (induction qs arbitrary: l)
  case Nil
  then show ?case by simp
next
  case (Cons p qs)
  obtain g x where p: "p = (g, x)" by (cases p)
  have step: "add_xpaths decl r (p # qs) l = add_xpaths decl r qs (add_xpath decl r g x l)"
    by (simp add: add_xpaths_def p)
  show ?case
  proof (cases "g = f")
    case True
    with Cons.prems p have "x = q" and "f \<notin> fst ` set qs" by auto
    then show ?thesis using True step by (simp add: map_of_add_xpaths_other)
  next
    case False
    with Cons.prems p have d: "distinct (map fst qs)" and m: "map_of qs f = Some q" by auto
    have "map_of (add_xpaths decl r qs (add_xpath decl r g x l)) f
            = map_of (add_xpath decl r f q (add_xpath decl r g x l)) f"
      by (rule Cons.IH [OF d m])
    also have "\<dots> = map_of (add_xpath decl r f q l) f"
      using False by (simp add: add_xpath_def add_value_def Let_def map_of_setitem)
    finally show ?thesis using step by simp
  qed
qed

lemma match_result_field:
  assumes "f = ''home_result'' \<or> f = ''away_result''"
  shows "map_of (load_match decl response kwargs) f =
           loaded_value (decl Match f)
             (PList (map PStr (xpath_text response (xpath_for match_xpaths ''home_result''))))"
proof -
  let ?l0 = "add_value (decl Match) ''league_hash'' (dict_get kwargs ''league_hash'') []"
  let ?q = "xpath_for match_xpaths ''home_result''"
  have q: "map_of match_xpaths f = Some ?q"
    using assms by (auto simp: match_xpaths_def xpath_for_def)
  have d: "distinct (map fst match_xpaths)" by (simp add: match_xpaths_def)
  have n: "map_of ?l0 f = None"
    using assms by (auto simp: map_of_add_value_other)
  have "map_of (add_xpaths (decl Match) response match_xpaths ?l0) f
          = map_of (add_xpath (decl Match) response f ?q ?l0) f"
    by (rule map_of_add_xpaths_once [OF d q])
  also have "\<dots> = (let p = input_processor (decl Match f) (map PStr (xpath_text response ?q))
                    in if truthy p then Some (arg_to_iter p) else None)"
    using n by (simp add: add_xpath_def add_value_def Let_def map_of_setitem)
  finally have l: "map_of (add_xpaths (decl Match) response match_xpaths ?l0) f
          = (let p = input_processor (decl Match f) (map PStr (xpath_text response ?q))
                    in if truthy p then Some (arg_to_iter p) else None)" .
  show ?thesis
    unfolding load_match_def
    by (simp add: map_of_load_item [OF distinct_loader] l loaded_value_def Let_def)
qed



section \<open>The string form and its encoding determine the values\<close>
































section \<open>Three digests\<close>



section \<open>The claims\<close>

text \<open>
  C1. Every League record that \<^verbatim>\<open>parse_season\<close> yields stores as \<^verbatim>\<open>hash\<close> the MD5 hex digest,
  32 hexadecimal digits, of the string form of the list of its \<^verbatim>\<open>title\<close> and \<^verbatim>\<open>season\<close>:
  recomputing the digest from the two stored values gives the stored hash.
\<close>

theorem league_hash_recomputable:
  assumes "Item League league \<in> set (fst (parse_season decl response kwargs))"
  shows "\<exists>h. getitem league ''hash'' = Inr (PStr h) \<and> recompute_league_hash league = Inr (PStr h)
             \<and> length h = 32 \<and> set h \<subseteq> set hexdigits"
proof -
  from assms obtain title season b where
    t: "map_of (load_league decl response kwargs) ''title'' = Some title" and
    s: "map_of (load_league decl response kwargs) ''season'' = Some season" and
    l: "league = (let l = setitem (load_league decl response kwargs) ''hash''
                  (PStr (md5_hexdigest (encode (str_list [title, season]))))
               in if b then setitem l ''blocked'' (PBool True) else l)"
    by (rule parse_season_items)
  let ?h = "md5_hexdigest (encode (str_list [title, season]))"
  have "getitem league ''hash'' = Inr (PStr ?h)"
    using l by (simp add: getitem_def map_of_setitem Let_def)
  moreover have "recompute_league_hash league = Inr (PStr ?h)"
    using l t s by (simp add: recompute_league_hash_def getitem_def map_of_setitem Let_def)
  moreover have "length ?h = 32" by (rule length_md5_hexdigest)
  moreover have "set ?h \<subseteq> set hexdigits" by (rule set_md5_hexdigest)
  ultimately show ?thesis by (intro exI conjI)
qed

theorem league_hash_recomputable_witness:
  "Item League example_league \<in> set (fst (parse_season take_first_fields link_page example_kwargs))
   \<and> (\<exists>h. getitem example_league ''hash'' = Inr (PStr h)
           \<and> recompute_league_hash example_league = Inr (PStr h)
           \<and> length h = 32 \<and> set h \<subseteq> set hexdigits)"
proof -
  have m: "Item League example_league
             \<in> set (fst (parse_season take_first_fields link_page example_kwargs))"
    by (simp add: parse_season_link_page)
  from league_hash_recomputable [OF m] m show ?thesis by simp
qed

text \<open>
  C2. Every Match record that \<^verbatim>\<open>parse_match\<close> yields stores as \<^verbatim>\<open>hash\<close> the digest of the list
  of its \<^verbatim>\<open>league_hash\<close>, \<^verbatim>\<open>timestamp\<close>, \<^verbatim>\<open>home_team\<close> and \<^verbatim>\<open>away_team\<close>: recomputing the
  digest from the four stored values gives the stored hash.
\<close>

theorem match_hash_recomputable:
  assumes "Item Match match \<in> set (fst (parse_match decl response kwargs))"
  shows "\<exists>h. getitem match ''hash'' = Inr (PStr h) \<and> recompute_match_hash match = Inr (PStr h)
             \<and> length h = 32 \<and> set h \<subseteq> set hexdigits"
proof -
  from assms obtain a b c d where
    p: "map_of (load_match decl response kwargs) ''league_hash'' = Some a"
       "map_of (load_match decl response kwargs) ''timestamp'' = Some b"
       "map_of (load_match decl response kwargs) ''home_team'' = Some c"
       "map_of (load_match decl response kwargs) ''away_team'' = Some d" and
    m: "match = setitem (load_match decl response kwargs) ''hash''
               (PStr (md5_hexdigest (encode (str_list [a, b, c, d]))))"
    by (rule parse_match_items)
  let ?h = "md5_hexdigest (encode (str_list [a, b, c, d]))"
  have "getitem match ''hash'' = Inr (PStr ?h)"
    using m by (simp add: getitem_def map_of_setitem)
  moreover have "recompute_match_hash match = Inr (PStr ?h)"
    using m p by (simp add: recompute_match_hash_def getitem_def map_of_setitem)
  moreover have "length ?h = 32" by (rule length_md5_hexdigest)
  moreover have "set ?h \<subseteq> set hexdigits" by (rule set_md5_hexdigest)
  ultimately show ?thesis by (intro exI conjI)
qed

text \<open>
  C3, as amended. On a season page whose matches link has no \<^verbatim>\<open>href\<close> attribute and whose
  loaded League item holds \<^verbatim>\<open>title\<close> and \<^verbatim>\<open>season\<close>, \<^verbatim>\<open>parse_season\<close> yields the League
  record twice: first with \<^verbatim>\<open>blocked\<close> unset, then the same record with \<^verbatim>\<open>blocked\<close> set to
  \<^verbatim>\<open>True\<close>. Exactly one of the two yielded records has \<^verbatim>\<open>blocked = True\<close>, and no request is
  issued.
\<close>

theorem blocked_season_yields_twice:
  assumes "matches_href response = None"
    and "first_missing (load_league decl response kwargs) [''title'', ''season''] = None"
  shows "\<exists>league. parse_season decl response kwargs =
                    ([Item League league, Item League (setitem league ''blocked'' (PBool True))], None)
                \<and> map_of league ''blocked'' = None
                \<and> requests_of (fst (parse_season decl response kwargs)) = []
                \<and> filter (\<lambda>l. map_of l ''blocked'' = Some (PBool True))
                      (items_of League (fst (parse_season decl response kwargs)))
                    = [setitem league ''blocked'' (PBool True)]"
proof -
  from assms(2) obtain title season where
    t: "map_of (load_league decl response kwargs) ''title'' = Some title" and
    s: "map_of (load_league decl response kwargs) ''season'' = Some season"
    by (rule parse_season_present)
  let ?l = "setitem (load_league decl response kwargs) ''hash''
              (PStr (md5_hexdigest (encode (str_list [title, season]))))"
  have b: "season_matches response ?l = ([Item League (setitem ?l ''blocked'' (PBool True))], None)"
    using assms(1) by (intro season_matches_blocked) (simp add: matches_href_def)
  have p: "parse_season decl response kwargs =
             ([Item League ?l, Item League (setitem ?l ''blocked'' (PBool True))], None)"
    by (simp add: parse_season_loaded [OF t s] Let_def b)
  have n: "map_of ?l ''blocked'' = None"
    by (simp add: map_of_setitem league_not_blocked)
  have r: "requests_of (fst (parse_season decl response kwargs)) = []"
    by (simp add: p requests_of_def)
  have f: "filter (\<lambda>l. map_of l ''blocked'' = Some (PBool True))
             (items_of League (fst (parse_season decl response kwargs)))
           = [setitem ?l ''blocked'' (PBool True)]"
    using n by (simp add: p items_of_def map_of_setitem)
  from p n r f show ?thesis by blast
qed

theorem blocked_season_yields_twice_witness:
  "matches_href blocked_page = None
   \<and> first_missing (load_league take_first_fields blocked_page example_kwargs)
         [''title'', ''season''] = None
   \<and> (\<exists>league. parse_season take_first_fields blocked_page example_kwargs =
                    ([Item League league, Item League (setitem league ''blocked'' (PBool True))], None)
                \<and> map_of league ''blocked'' = None
                \<and> requests_of (fst (parse_season take_first_fields blocked_page example_kwargs)) = []
                \<and> filter (\<lambda>l. map_of l ''blocked'' = Some (PBool True))
                      (items_of League (fst (parse_season take_first_fields blocked_page example_kwargs)))
                    = [setitem league ''blocked'' (PBool True)])"
proof -
  have h: "matches_href blocked_page = None"
    by (simp add: page_eval blocked_page_def)
  have m: "first_missing (load_league take_first_fields blocked_page example_kwargs)
             [''title'', ''season''] = None"
    by (simp add: first_missing_def page_eval blocked_page_def)
  from blocked_season_yields_twice [OF h m] h m show ?thesis by simp
qed

text \<open>
  The claim as stated, exactly one League record, fails on the example page without
  \<^verbatim>\<open>href\<close>: two League records are yielded.
\<close>

theorem blocked_season_counterexample:
  "matches_href blocked_page = None
   \<and> items_of League (fst (parse_season take_first_fields blocked_page example_kwargs))
       = [example_league, example_league @ [(''blocked'', PBool True)]]
   \<and> length (items_of League (fst (parse_season take_first_fields blocked_page example_kwargs))) = 2"
  by (simp add: parse_season_blocked_page items_of_def) (simp add: page_eval blocked_page_def)

theorem match_hash_recomputable_witness:
  "Item Match example_match \<in> set (fst (parse_match take_first_fields match_page match_kwargs))
   \<and> (\<exists>h. getitem example_match ''hash'' = Inr (PStr h)
           \<and> recompute_match_hash example_match = Inr (PStr h)
           \<and> length h = 32 \<and> set h \<subseteq> set hexdigits)"
proof -
  have m: "Item Match example_match
             \<in> set (fst (parse_match take_first_fields match_page match_kwargs))"
    by (simp add: parse_match_match_page)
  from match_hash_recomputable [OF m] m show ?thesis by simp
qed

text \<open>
  C4, as amended. The hash is computed, and the record yielded, exactly when every field
  that feeds the digest is present in the loaded item, whatever its value. The parsers
  subscript the fields in order, so a field that was not loaded raises \<^verbatim>\<open>KeyError\<close> for the
  first missing one, and then nothing is yielded.
\<close>

theorem hash_needs_its_fields:
  "(case first_missing (load_league decl response kwargs) [''title'', ''season''] of
      Some k \<Rightarrow> parse_season decl response kwargs = ([], Some (KeyError k))
    | None \<Rightarrow>
        (\<exists>league later err h.
           parse_season decl response kwargs = (Item League league # later, err)
           \<and> getitem league ''hash'' = Inr (PStr h)
           \<and> recompute_league_hash league = Inr (PStr h)))
   \<and> (case first_missing (load_match decl response kwargs)
              [''league_hash'', ''timestamp'', ''home_team'', ''away_team''] of
      Some k \<Rightarrow> parse_match decl response kwargs = ([], Some (KeyError k))
    | None \<Rightarrow>
        (\<exists>match later err h.
           parse_match decl response kwargs = (Item Match match # later, err)
           \<and> getitem match ''hash'' = Inr (PStr h)
           \<and> recompute_match_hash match = Inr (PStr h)))"
proof (intro conjI)
  let ?L = "load_league decl response kwargs"
  show "case first_missing ?L [''title'', ''season''] of
      Some k \<Rightarrow> parse_season decl response kwargs = ([], Some (KeyError k))
    | None \<Rightarrow>
        (\<exists>league later err h.
           parse_season decl response kwargs = (Item League league # later, err)
           \<and> getitem league ''hash'' = Inr (PStr h)
           \<and> recompute_league_hash league = Inr (PStr h))"
  proof (cases "first_missing ?L [''title'', ''season'']")
    case (Some k)
    then show ?thesis by (simp add: parse_season_first_missing)
  next
    case None
    then obtain title season where t: "map_of ?L ''title'' = Some title"
      and s: "map_of ?L ''season'' = Some season" by (rule parse_season_present)
    let ?l = "setitem ?L ''hash'' (PStr (md5_hexdigest (encode (str_list [title, season]))))"
    have "parse_season decl response kwargs =
            (Item League ?l # fst (season_matches response ?l), snd (season_matches response ?l))"
      by (simp add: parse_season_loaded [OF t s] Let_def)
    moreover have "getitem ?l ''hash'' = Inr (PStr (md5_hexdigest (encode (str_list [title, season]))))"
      by (simp add: getitem_def map_of_setitem)
    moreover have "recompute_league_hash ?l
                     = Inr (PStr (md5_hexdigest (encode (str_list [title, season]))))"
      using t s by (simp add: recompute_league_hash_def getitem_def map_of_setitem)
    ultimately show ?thesis using None by auto
  qed
next
  let ?M = "load_match decl response kwargs"
  let ?ks = "[''league_hash'', ''timestamp'', ''home_team'', ''away_team'']"
  show "case first_missing ?M ?ks of
      Some k \<Rightarrow> parse_match decl response kwargs = ([], Some (KeyError k))
    | None \<Rightarrow>
        (\<exists>match later err h.
           parse_match decl response kwargs = (Item Match match # later, err)
           \<and> getitem match ''hash'' = Inr (PStr h)
           \<and> recompute_match_hash match = Inr (PStr h))"
  proof (cases "first_missing ?M ?ks")
    case (Some k)
    then show ?thesis by (simp add: parse_match_missing)
  next
    case None
    then obtain a b c d where p: "map_of ?M ''league_hash'' = Some a"
      "map_of ?M ''timestamp'' = Some b" "map_of ?M ''home_team'' = Some c"
      "map_of ?M ''away_team'' = Some d"
      by (auto simp: first_missing_None_iff)
    let ?h = "md5_hexdigest (encode (str_list [a, b, c, d]))"
    let ?m = "setitem ?M ''hash'' (PStr ?h)"
    have "parse_match decl response kwargs =
            (Item Match ?m # fst (match_statistics decl response ?m),
             snd (match_statistics decl response ?m))"
      by (simp add: parse_match_loaded [OF p] Let_def)
    moreover have "getitem ?m ''hash'' = Inr (PStr ?h)"
      by (simp add: getitem_def map_of_setitem)
    moreover have "recompute_match_hash ?m = Inr (PStr ?h)"
      using p by (simp add: recompute_match_hash_def getitem_def map_of_setitem)
    ultimately show ?thesis using None by auto
  qed
qed

text \<open>
  The claim as stated fails on a page where no query matches: both parsers raise
  \<^verbatim>\<open>KeyError\<close> before they yield anything.
\<close>

theorem hash_missing_fields_counterexample:
  "parse_season identity_fields empty_page [] = ([], Some (KeyError ''title''))
   \<and> parse_match identity_fields empty_page [] = ([], Some (KeyError ''league_hash''))"
  by (simp add: parse_season_def parse_match_def Let_def page_eval empty_page_def)

text \<open>
  C5, as amended. On a season page whose matches link has the \<^verbatim>\<open>href\<close> \<^verbatim>\<open>#\<close> and carries the
  attributes \<^verbatim>\<open>data-hash\<close>, \<^verbatim>\<open>data-zzz\<close> and \<^verbatim>\<open>data-z\<close>, and whose loaded League item holds
  \<^verbatim>\<open>title\<close> and \<^verbatim>\<open>season\<close>, \<^verbatim>\<open>parse_season\<close> yields exactly the League record, with
  \<^verbatim>\<open>blocked\<close> unset, and one form request: a POST to the AJAX endpoint with the three form
  fields \<^verbatim>\<open>hash\<close>, \<^verbatim>\<open>zzz\<close> and \<^verbatim>\<open>cur\<close> taken from those attributes. It follows no link.
\<close>

theorem ajax_season_form_request:
  assumes "matches_href response = Some ''#''"
    and "map_of (matches_attrib response) ''data-hash'' = Some data_hash"
    and "map_of (matches_attrib response) ''data-zzz'' = Some data_zzz"
    and "map_of (matches_attrib response) ''data-z'' = Some data_z"
    and "first_missing (load_league decl response kwargs) [''title'', ''season''] = None"
  shows "\<exists>league h.
           parse_season decl response kwargs =
             ([Item League league,
               Request (FormRequest ''https://footystats.org/ajax_league.php'' ''POST''
                          [(''hash'', data_hash), (''zzz'', data_zzz), (''cur'', data_z)]
                          Parse_matches [(''league_hash'', PStr h)])], None)
           \<and> map_of league ''blocked'' = None
           \<and> map_of league ''hash'' = Some (PStr h)"
proof -
  from assms(5) obtain title season where
    t: "map_of (load_league decl response kwargs) ''title'' = Some title" and
    s: "map_of (load_league decl response kwargs) ''season'' = Some season"
    by (rule parse_season_present)
  let ?h = "md5_hexdigest (encode (str_list [title, season]))"
  let ?l = "setitem (load_league decl response kwargs) ''hash'' (PStr ?h)"
  have href: "get_first (xpath_attr (xpath_nodes response matches_xpath) ''href'') = Some ''#''"
    using assms(1) by (simp add: matches_href_def)
  have b: "season_matches response ?l =
             ([Request (FormRequest ''https://footystats.org/ajax_league.php'' ''POST''
                          [(''hash'', data_hash), (''zzz'', data_zzz), (''cur'', data_z)]
                          Parse_matches [(''league_hash'', PStr ?h)])], None)"
    using assms(2-4)
    by (simp add: season_matches_ajax [OF href] matches_attrib_def getitem_def map_of_setitem
        make_url_def base_url_def)
  have p: "parse_season decl response kwargs =
             ([Item League ?l,
               Request (FormRequest ''https://footystats.org/ajax_league.php'' ''POST''
                          [(''hash'', data_hash), (''zzz'', data_zzz), (''cur'', data_z)]
                          Parse_matches [(''league_hash'', PStr ?h)])], None)"
    by (simp add: parse_season_loaded [OF t s] Let_def b)
  have n: "map_of ?l ''blocked'' = None"
    by (simp add: map_of_setitem league_not_blocked)
  have h: "map_of ?l ''hash'' = Some (PStr ?h)"
    by (simp add: map_of_setitem)
  from p n h show ?thesis by blast
qed

theorem ajax_season_form_request_witness:
  "matches_href ajax_page = Some ''#''
   \<and> map_of (matches_attrib ajax_page) ''data-hash'' = Some ''a1''
   \<and> map_of (matches_attrib ajax_page) ''data-zzz'' = Some ''b2''
   \<and> map_of (matches_attrib ajax_page) ''data-z'' = Some ''c3''
   \<and> first_missing (load_league take_first_fields ajax_page example_kwargs)
         [''title'', ''season''] = None
   \<and> (\<exists>league h.
           parse_season take_first_fields ajax_page example_kwargs =
             ([Item League league,
               Request (FormRequest ''https://footystats.org/ajax_league.php'' ''POST''
                          [(''hash'', ''a1''), (''zzz'', ''b2''), (''cur'', ''c3'')]
                          Parse_matches [(''league_hash'', PStr h)])], None)
           \<and> map_of league ''blocked'' = None
           \<and> map_of league ''hash'' = Some (PStr h))"
proof -
  have a: "matches_href ajax_page = Some ''#''"
    by (simp add: page_eval ajax_page_def)
  have b: "map_of (matches_attrib ajax_page) ''data-hash'' = Some ''a1''"
    by (simp add: page_eval ajax_page_def)
  have c: "map_of (matches_attrib ajax_page) ''data-zzz'' = Some ''b2''"
    by (simp add: page_eval ajax_page_def)
  have d: "map_of (matches_attrib ajax_page) ''data-z'' = Some ''c3''"
    by (simp add: page_eval ajax_page_def)
  have e: "first_missing (load_league take_first_fields ajax_page example_kwargs)
             [''title'', ''season''] = None"
    by (simp add: first_missing_def page_eval ajax_page_def)
  from ajax_season_form_request [OF a b c d e] a b c d e show ?thesis by simp
qed

text \<open>
  The claim as stated fails on a page with the \<^verbatim>\<open>href\<close> \<^verbatim>\<open>#\<close> on which no season was
  extracted: \<^verbatim>\<open>parse_season\<close> raises \<^verbatim>\<open>KeyError\<close> and yields neither a record nor a request.
\<close>

theorem ajax_season_counterexample:
  "matches_href ajax_page_no_season = Some ''#''
   \<and> parse_season take_first_fields ajax_page_no_season example_kwargs
       = ([], Some (KeyError ''season''))
   \<and> items_of League (fst (parse_season take_first_fields ajax_page_no_season example_kwargs)) = []
   \<and> requests_of (fst (parse_season take_first_fields ajax_page_no_season example_kwargs)) = []"
  by (simp add: parse_season_def Let_def page_eval ajax_page_no_season_def items_of_def
      requests_of_def)

text \<open>
  C6, as amended. On a match page whose loaded Match item holds \<^verbatim>\<open>league_hash\<close>,
  \<^verbatim>\<open>timestamp\<close>, \<^verbatim>\<open>home_team\<close> and \<^verbatim>\<open>away_team\<close>, \<^verbatim>\<open>parse_match\<close> yields exactly one Match
  record, followed by one PostMatchStatistics record if the page has the statistics panel
  and by nothing otherwise. The statistics loader is given the hash of the Match record
  as \<^verbatim>\<open>match_hash\<close>: the field holds what its declared processors make of that one value.
\<close>

theorem match_detail_records:
  assumes "first_missing (load_match decl response kwargs)
             [''league_hash'', ''timestamp'', ''home_team'', ''away_team''] = None"
  shows "\<exists>match h.
           parse_match decl response kwargs =
             (Item Match match #
                (if has_statistics_panel response
                 then [Item PostMatchStatistics (load_statistics decl response (PStr h))]
                 else []), None)
           \<and> map_of match ''hash'' = Some (PStr h)
           \<and> map_of (load_statistics decl response (PStr h)) ''match_hash''
               = loaded_value (decl PostMatchStatistics ''match_hash'') (PStr h)"
proof -
  let ?M = "load_match decl response kwargs"
  from assms obtain a b c d where p: "map_of ?M ''league_hash'' = Some a"
      "map_of ?M ''timestamp'' = Some b" "map_of ?M ''home_team'' = Some c"
      "map_of ?M ''away_team'' = Some d"
    by (auto simp: first_missing_None_iff)
  let ?h = "md5_hexdigest (encode (str_list [a, b, c, d]))"
  let ?m = "setitem ?M ''hash'' (PStr ?h)"
  have h: "map_of ?m ''hash'' = Some (PStr ?h)"
    by (simp add: map_of_setitem)
  have s: "match_statistics decl response ?m =
             ((if has_statistics_panel response
               then [Item PostMatchStatistics (load_statistics decl response (PStr ?h))]
               else []), None)"
    using h
    by (simp add: has_statistics_panel_def match_statistics_present match_statistics_absent)
  have "parse_match decl response kwargs =
          (Item Match ?m #
             (if has_statistics_panel response
              then [Item PostMatchStatistics (load_statistics decl response (PStr ?h))]
              else []), None)"
    by (simp add: parse_match_loaded [OF p] Let_def s)
  with h statistics_match_hash [of decl response "PStr ?h"] show ?thesis by blast
qed

theorem match_detail_records_witness:
  "first_missing (load_match take_first_fields statistics_page match_kwargs)
       [''league_hash'', ''timestamp'', ''home_team'', ''away_team''] = None
   \<and> has_statistics_panel statistics_page
   \<and> (\<exists>match h.
         parse_match take_first_fields statistics_page match_kwargs =
           ([Item Match match,
             Item PostMatchStatistics (load_statistics take_first_fields statistics_page (PStr h))],
            None)
         \<and> map_of match ''hash'' = Some (PStr h)
         \<and> map_of (load_statistics take_first_fields statistics_page (PStr h)) ''match_hash''
             = Some (PStr h))
   \<and> first_missing (load_match take_first_fields match_page match_kwargs)
       [''league_hash'', ''timestamp'', ''home_team'', ''away_team''] = None
   \<and> \<not> has_statistics_panel match_page
   \<and> (\<exists>match h.
         parse_match take_first_fields match_page match_kwargs = ([Item Match match], None)
         \<and> map_of match ''hash'' = Some (PStr h))"
proof -
  have a: "first_missing (load_match take_first_fields statistics_page match_kwargs)
             [''league_hash'', ''timestamp'', ''home_team'', ''away_team''] = None"
    by (simp add: first_missing_def page_eval statistics_page_def)
  have b: "has_statistics_panel statistics_page"
    by (simp add: page_eval statistics_page_def)
  have c: "first_missing (load_match take_first_fields match_page match_kwargs)
             [''league_hash'', ''timestamp'', ''home_team'', ''away_team''] = None"
    by (simp add: first_missing_def page_eval match_page_def)
  have d: "\<not> has_statistics_panel match_page"
    by (simp add: page_eval match_page_def)
  from match_detail_records [OF a] b obtain match h where
    1: "parse_match take_first_fields statistics_page match_kwargs =
           ([Item Match match,
             Item PostMatchStatistics (load_statistics take_first_fields statistics_page (PStr h))],
            None)" and
    2: "map_of match ''hash'' = Some (PStr h)" and
    3: "map_of (load_statistics take_first_fields statistics_page (PStr h)) ''match_hash''
          = loaded_value (take_first_fields PostMatchStatistics ''match_hash'') (PStr h)"
    by auto
  from 1 have "match = example_match"
    by (simp add: parse_match_statistics_page)
  with 2 have "h = example_match_hash"
    by (simp add: example_match_def)
  then have "h \<noteq> []" by (simp add: example_match_hash_nonempty)
  with 3 have 4: "map_of (load_statistics take_first_fields statistics_page (PStr h)) ''match_hash''
          = Some (PStr h)"
    by (simp add: loaded_value_take_first)
  from match_detail_records [OF c] d obtain match' h' where
    5: "parse_match take_first_fields match_page match_kwargs = ([Item Match match'], None)" and
    6: "map_of match' ''hash'' = Some (PStr h')"
    by auto
  from a b c d 1 2 4 5 6 show ?thesis by blast
qed

text \<open>
  The claim as stated fails on a match page on which no timestamp was extracted:
  \<^verbatim>\<open>parse_match\<close> raises \<^verbatim>\<open>KeyError\<close> and yields no Match record.
\<close>

theorem match_detail_counterexample:
  "\<not> has_statistics_panel match_page_no_timestamp
   \<and> parse_match take_first_fields match_page_no_timestamp match_kwargs
       = ([], Some (KeyError ''timestamp''))
   \<and> items_of Match (fst (parse_match take_first_fields match_page_no_timestamp match_kwargs)) = []"
  by (simp add: parse_match_def Let_def page_eval match_page_no_timestamp_def items_of_def)

text \<open>
  C7, as amended. On a leagues-index page with two country groups, each with an \<^verbatim>\<open>id\<close>
  attribute and three league links that \<^verbatim>\<open>response.follow\<close> accepts, \<^verbatim>\<open>parse_leagues\<close> yields
  no record and exactly six link requests, in document order, each carrying as \<^verbatim>\<open>country\<close>
  the \<^verbatim>\<open>id\<close> of the group that held its link.
\<close>

theorem leagues_index_requests:
  assumes "xpath_nodes response country_selectors_xpath = [group1, group2]"
    and "map_of (attrib group1) ''id'' = Some country1"
    and "map_of (attrib group2) ''id'' = Some country2"
    and "select group1 leagues_urls_xpath = [url1, url2, url3]"
    and "select group2 leagues_urls_xpath = [url4, url5, url6]"
    and "list_all (\<lambda>u. has_scheme (follow_url response u)) [url1, url2, url3, url4, url5, url6]"
  shows "parse_leagues response =
           ([Request (Follow url1 Parse_league [(''country'', PStr country1)]),
             Request (Follow url2 Parse_league [(''country'', PStr country1)]),
             Request (Follow url3 Parse_league [(''country'', PStr country1)]),
             Request (Follow url4 Parse_league [(''country'', PStr country2)]),
             Request (Follow url5 Parse_league [(''country'', PStr country2)]),
             Request (Follow url6 Parse_league [(''country'', PStr country2)])], None)
         \<and> items_of League (fst (parse_leagues response)) = []
         \<and> items_of Match (fst (parse_leagues response)) = []
         \<and> items_of PostMatchStatistics (fst (parse_leagues response)) = []
         \<and> length (requests_of (fst (parse_leagues response))) = 6"
proof -
  have a1: "list_all (\<lambda>u. has_scheme (follow_url response u)) (select group1 leagues_urls_xpath)"
    using assms(4,6) by simp
  have a2: "list_all (\<lambda>u. has_scheme (follow_url response u)) (select group2 leagues_urls_xpath)"
    using assms(5,6) by simp
  have "parse_leagues response =
           ([Request (Follow url1 Parse_league [(''country'', PStr country1)]),
             Request (Follow url2 Parse_league [(''country'', PStr country1)]),
             Request (Follow url3 Parse_league [(''country'', PStr country1)]),
             Request (Follow url4 Parse_league [(''country'', PStr country2)]),
             Request (Follow url5 Parse_league [(''country'', PStr country2)]),
             Request (Follow url6 Parse_league [(''country'', PStr country2)])], None)"
    using assms(1,4,5)
    by (simp add: parse_leagues_def parse_leagues_loop_Cons [OF assms(2) a1]
        parse_leagues_loop_Cons [OF assms(3) a2] del: parse_leagues_loop.simps(2))
  then show ?thesis by (simp add: items_of_def requests_of_def)
qed

theorem leagues_index_requests_witness:
  "parse_leagues leagues_page =
     ([Request (Follow ''/england/premier-league'' Parse_league [(''country'', PStr ''england'')]),
       Request (Follow ''/england/championship'' Parse_league [(''country'', PStr ''england'')]),
       Request (Follow ''/england/fa-cup'' Parse_league [(''country'', PStr ''england'')]),
       Request (Follow ''/spain/la-liga'' Parse_league [(''country'', PStr ''spain'')]),
       Request (Follow ''/spain/segunda-division'' Parse_league [(''country'', PStr ''spain'')]),
       Request (Follow ''/spain/copa-del-rey'' Parse_league [(''country'', PStr ''spain'')])], None)
   \<and> items_of League (fst (parse_leagues leagues_page)) = []
   \<and> items_of Match (fst (parse_leagues leagues_page)) = []
   \<and> items_of PostMatchStatistics (fst (parse_leagues leagues_page)) = []
   \<and> length (requests_of (fst (parse_leagues leagues_page))) = 6"
proof -
  let ?g1 = "Node [(''class'', ''pt2e''), (''id'', ''england'')]
          (\<lambda>q. if q = leagues_urls_xpath
                then [''/england/premier-league'', ''/england/championship'', ''/england/fa-cup'']
                else [])"
  let ?g2 = "Node [(''class'', ''pt2e''), (''id'', ''spain'')]
          (\<lambda>q. if q = leagues_urls_xpath
                then [''/spain/la-liga'', ''/spain/segunda-division'', ''/spain/copa-del-rey'']
                else [])"
  have a: "xpath_nodes leagues_page country_selectors_xpath = [?g1, ?g2]"
    by (simp add: leagues_page_def page_def)
  have b: "map_of (attrib ?g1) ''id'' = Some ''england''" by simp
  have c: "map_of (attrib ?g2) ''id'' = Some ''spain''" by simp
  have d: "select ?g1 leagues_urls_xpath
             = [''/england/premier-league'', ''/england/championship'', ''/england/fa-cup'']"
    by simp
  have e: "select ?g2 leagues_urls_xpath
             = [''/spain/la-liga'', ''/spain/segunda-division'', ''/spain/copa-del-rey'']"
    by simp
  have f: "list_all (\<lambda>u. has_scheme (follow_url leagues_page u))
             [''/england/premier-league'', ''/england/championship'', ''/england/fa-cup'',
              ''/spain/la-liga'', ''/spain/segunda-division'', ''/spain/copa-del-rey'']"
    by (simp add: leagues_page_def page_def site_url_def base_url_def has_scheme_def)
  from leagues_index_requests [OF a b c d e f] show ?thesis .
qed

text \<open>
  The claim as stated fails on two pages that have two country groups with three league
  links each. On the first, a group has no \<^verbatim>\<open>id\<close> attribute: \<^verbatim>\<open>parse_leagues\<close> raises
  \<^verbatim>\<open>KeyError\<close> and yields nothing. On the second, one of the links is a \<^verbatim>\<open>mailto:\<close> link:
  \<^verbatim>\<open>parse_leagues\<close> yields the one request before it and raises \<^verbatim>\<open>ValueError\<close>.
\<close>

theorem leagues_index_counterexample:
  "map (\<lambda>g. length (select g leagues_urls_xpath))
       (xpath_nodes leagues_page_no_id country_selectors_xpath) = [3, 3]
   \<and> parse_leagues leagues_page_no_id = ([], Some (KeyError ''id''))
   \<and> map (\<lambda>g. length (select g leagues_urls_xpath))
       (xpath_nodes leagues_page_mailto country_selectors_xpath) = [3, 3]
   \<and> parse_leagues leagues_page_mailto =
       ([Request (Follow ''/england/premier-league'' Parse_league [(''country'', PStr ''england'')])],
        Some (ValueError ''Missing scheme in request url: mailto:info@example.org''))"
  by (simp add: parse_leagues_def leagues_page_no_id_def leagues_page_mailto_def page_def
      getitem_def follow_def has_scheme_def site_url_def base_url_def)






text \<open>
  C10. In \<^verbatim>\<open>parse_match\<close> the fields \<^verbatim>\<open>home_result\<close> and \<^verbatim>\<open>away_result\<close> are filled with the
  same query: on every page both are loaded from the same list of extracted strings.
\<close>

theorem match_results_same_query:
  "map_of match_xpaths ''home_result'' = map_of match_xpaths ''away_result''
   \<and> (\<exists>raw. raw = PList (map PStr (xpath_text response (xpath_for match_xpaths ''home_result'')))
         \<and> map_of (load_match decl response kwargs) ''home_result''
             = loaded_value (decl Match ''home_result'') raw
         \<and> map_of (load_match decl response kwargs) ''away_result''
             = loaded_value (decl Match ''away_result'') raw)"
  by (simp add: match_result_field) (simp add: match_xpaths_def)

end
